theory Spec2Isabelle
  imports Main "HOL-Library.Word"
begin

unbundle bit_operations_syntax

section \<open>The flag manager of \<open>enum_flags.h\<close>\<close>

text \<open>
  \<open>EnumFlags<Enum>\<close> is a class template over a scoped enumeration whose underlying type
  \<open>RawType\<close> is an unsigned integer type. Both datatypes below take \<open>RawType\<close> as their
  parameter, and the functions instantiate it with \<open>'a word\<close> for a width \<open>'a::len\<close>:
  every theorem below holds for each unsigned underlying type at once. (The type \<open>bool\<close>,
  which the constraint admits as well, is converted to by comparison with zero and not by
  truncation; it is not an instance of this model.)

  A scoped enumeration with a fixed underlying type can hold every value of that type
  (enumerators declared with any literal, or a \<open>static_cast\<close>), so a value of \<open>Enum\<close> is a
  wrapped \<open>RawType\<close> and \<open>std::to_underlying\<close> unwraps it.
\<close>

datatype 'raw Enum = Enum (to_underlying: 'raw)

text \<open>The class has the single data member \<open>RawType flags_ {0}\<close>, the selector
  \<open>raw_flags\<close> here.\<close>

datatype 'raw EnumFlags = EnumFlags (raw_flags: 'raw)

subsection \<open>Creating flag values\<close>

text \<open>
  \<open>static consteval RawType CreateFlag(const std::size_t shift)\<close> returns
  \<open>static_cast<RawType>(1) << shift\<close>.

  The left operand is promoted first: to \<open>int\<close> when \<open>RawType\<close> is narrower than \<open>int\<close>, and
  it stays \<open>RawType\<close> otherwise. The shift is made in the promoted type, where it is defined
  for a shift below that type's width only; the function is \<open>consteval\<close>, so a call with a
  larger shift is not a constant expression and the program is rejected: \<open>None\<close>. The
  \<open>return\<close> then converts the shifted value to \<open>RawType\<close>, keeping the low bits, which is
  \<open>push_bit\<close> on \<open>'a word\<close>. The width of \<open>int\<close> is implementation-defined and is the
  parameter \<open>int_bits\<close>.
\<close>

definition CreateFlag :: "nat \<Rightarrow> nat \<Rightarrow> 'a::len word option" where
  "CreateFlag int_bits shift =
     (if shift < max LENGTH('a) int_bits then Some (push_bit shift 1) else None)"

subsection \<open>Constructors and the conversion to the raw type\<close>

text \<open>\<open>constexpr EnumFlags(const RawType flags = 0) : flags_ {flags}\<close>, with and without
  its argument.\<close>

definition EnumFlags_raw :: "'a::len word \<Rightarrow> 'a word EnumFlags" where
  "EnumFlags_raw flags = EnumFlags flags"

definition EnumFlags_default :: "'a::len word EnumFlags" where
  "EnumFlags_default = EnumFlags_raw 0"

text \<open>\<open>constexpr EnumFlags(const Enum flag) : flags_ {std::to_underlying(flag)}\<close>.\<close>

definition EnumFlags_enum :: "'a::len word Enum \<Rightarrow> 'a word EnumFlags" where
  "EnumFlags_enum flag = EnumFlags (to_underlying flag)"

text \<open>\<open>constexpr operator RawType() const\<close> returns \<open>flags_\<close>.\<close>

definition to_RawType :: "'a::len word EnumFlags \<Rightarrow> 'a word" where
  "to_RawType this = raw_flags this"

subsection \<open>Member functions\<close>

text \<open>
  A member function that changes the receiver and ends in \<open>return *this\<close> is a function
  from the receiver's state before the call (and the arguments, all passed by value) to
  the receiver's state after it: the returned reference denotes the receiver, so a chained
  call \<open>F.Add(v).Remove(v)\<close> is the composition \<open>Remove (Add F v) v\<close>. A \<open>const\<close> member
  function returning \<open>bool\<close> is a function of the receiver's state.

  The bitwise operators of C++ promote operands narrower than \<open>int\<close>; the result is
  converted back to \<open>RawType\<close> by the assignment or compared with a promoted \<open>RawType\<close>
  value, and on the low \<open>LENGTH('a)\<close> bits this is \<open>AND\<close>, \<open>OR\<close> and \<open>NOT\<close> of \<open>'a word\<close>.
\<close>

text \<open>\<open>Clear\<close>: \<open>flags_ = 0\<close>.\<close>

definition Clear :: "'a::len word EnumFlags \<Rightarrow> 'a word EnumFlags" where
  "Clear this = EnumFlags 0"

text \<open>\<open>Remove\<close>: \<open>flags_ &= ~static_cast<RawType>(flags)\<close>.\<close>

definition Remove :: "'a::len word EnumFlags \<Rightarrow> 'a word EnumFlags \<Rightarrow> 'a word EnumFlags" where
  "Remove this flags = EnumFlags (raw_flags this AND NOT (to_RawType flags))"

text \<open>\<open>Add\<close>: \<open>flags_ |= static_cast<RawType>(flags)\<close>.\<close>

definition Add :: "'a::len word EnumFlags \<Rightarrow> 'a word EnumFlags \<Rightarrow> 'a word EnumFlags" where
  "Add this flags = EnumFlags (raw_flags this OR to_RawType flags)"

text \<open>\<open>Has\<close>: \<open>(flags_ & std::to_underlying(flag)) != 0\<close>.\<close>

definition Has :: "'a::len word EnumFlags \<Rightarrow> 'a word Enum \<Rightarrow> bool" where
  "Has this flag \<longleftrightarrow> raw_flags this AND to_underlying flag \<noteq> 0"

text \<open>\<open>HasAll\<close>:
  \<open>(flags_ & static_cast<RawType>(flags)) == static_cast<RawType>(flags)\<close>.\<close>

definition HasAll :: "'a::len word EnumFlags \<Rightarrow> 'a word EnumFlags \<Rightarrow> bool" where
  "HasAll this flags \<longleftrightarrow> raw_flags this AND to_RawType flags = to_RawType flags"

text \<open>\<open>HasAny(flags)\<close>: \<open>(flags_ & static_cast<RawType>(flags)) != 0\<close>.\<close>

definition HasAny :: "'a::len word EnumFlags \<Rightarrow> 'a word EnumFlags \<Rightarrow> bool" where
  "HasAny this flags \<longleftrightarrow> raw_flags this AND to_RawType flags \<noteq> 0"

text \<open>\<open>HasAny()\<close>: \<open>flags_ != 0\<close>.\<close>

definition HasAny0 :: "'a::len word EnumFlags \<Rightarrow> bool" where
  "HasAny0 this \<longleftrightarrow> raw_flags this \<noteq> 0"

text \<open>\<open>operator&(Enum)\<close> is \<open>Has\<close> and \<open>operator&(EnumFlags)\<close> is \<open>HasAll\<close>.\<close>

definition and_enum :: "'a::len word EnumFlags \<Rightarrow> 'a word Enum \<Rightarrow> bool" where
  "and_enum this flag = Has this flag"

definition and_flags :: "'a::len word EnumFlags \<Rightarrow> 'a word EnumFlags \<Rightarrow> bool" where
  "and_flags this flags = HasAll this flags"

text \<open>\<open>operator&=\<close>: \<open>flags_ = flags\<close>, where the right-hand side of type \<open>EnumFlags\<close> is
  converted by \<open>operator RawType\<close>.\<close>

definition and_assign :: "'a::len word EnumFlags \<Rightarrow> 'a word EnumFlags \<Rightarrow> 'a word EnumFlags" where
  "and_assign this flags = EnumFlags (to_RawType flags)"

text \<open>
  \<open>operator|\<close> is \<open>const\<close> and returns an object: \<open>return EnumFlags {*this}.Add(flags)\<close>
  copies the receiver into a temporary and calls \<open>Add\<close> on the temporary. The model
  returns the pair of the receiver after the call and the returned object.
\<close>

definition or_op :: "'a::len word EnumFlags \<Rightarrow> 'a word EnumFlags \<Rightarrow> 'a word EnumFlags \<times> 'a word EnumFlags" where
  "or_op this flags = (let tmp = EnumFlags (raw_flags this) in (this, Add tmp flags))"

text \<open>\<open>operator|=\<close>: \<open>return Add(flags)\<close>.\<close>

definition or_assign :: "'a::len word EnumFlags \<Rightarrow> 'a word EnumFlags \<Rightarrow> 'a word EnumFlags" where
  "or_assign this flags = Add this flags"

text \<open>\<open>swap\<close> exchanges the \<open>flags_\<close> of the receiver and of its reference argument; the
  model returns both objects after the call.\<close>

definition swap_flags :: "'a::len word EnumFlags \<Rightarrow> 'a word EnumFlags \<Rightarrow> 'a word EnumFlags \<times> 'a word EnumFlags" where
  "swap_flags this flags = (EnumFlags (raw_flags flags), EnumFlags (raw_flags this))"

text \<open>
  \<open>AddFlags\<close>: \<open>std::ranges::for_each(flags, [this](const auto flag) { Add(flag); })\<close>. The
  range is the list of its elements in iteration order (a vector, a list, an initializer
  list, or an unordered set in whatever order it iterates); each element is converted to
  \<open>EnumFlags\<close> by the constructor from \<open>Enum\<close> when it is passed to \<open>Add\<close>.
\<close>

definition AddFlags :: "'a::len word EnumFlags \<Rightarrow> 'a word Enum list \<Rightarrow> 'a word EnumFlags" where
  "AddFlags this flags = fold (\<lambda>flag acc. Add acc (EnumFlags_enum flag)) flags this"

text \<open>The constructors from an initializer list and from a range both call \<open>AddFlags\<close>
  on the object whose member has its default initializer \<open>flags_ {0}\<close>.\<close>

definition EnumFlags_range :: "'a::len word Enum list \<Rightarrow> 'a word EnumFlags" where
  "EnumFlags_range flags = AddFlags (EnumFlags 0) flags"

subsection \<open>Single-bit values\<close>

text \<open>A flag is a value \<open>1 << k\<close> for a shift \<open>k\<close> below the width of the underlying type:
  the values \<open>CreateFlag\<close> makes for the enumerators.\<close>

definition is_flag :: "'a::len word Enum \<Rightarrow> bool" where
  "is_flag flag \<longleftrightarrow> list_ex (\<lambda>k. to_underlying flag = push_bit k 1) [0..<LENGTH('a)]"

text \<open>The enumeration of the tests: \<open>enum class Opt : unsigned int\<close> with the enumerators
  \<open>A = CreateFlag(0)\<close>, ..., \<open>E = CreateFlag(4)\<close>.\<close>

definition Opt_A :: "32 word Enum" where "Opt_A = Enum (push_bit 0 1)"
definition Opt_B :: "32 word Enum" where "Opt_B = Enum (push_bit 1 1)"
definition Opt_C :: "32 word Enum" where "Opt_C = Enum (push_bit 2 1)"
definition Opt_D :: "32 word Enum" where "Opt_D = Enum (push_bit 3 1)"
definition Opt_E :: "32 word Enum" where "Opt_E = Enum (push_bit 4 1)"

text \<open>The containers of the typed tests hold \<open>{Opt::A, Opt::B}\<close>; the other tests use the
  initializer lists below.\<close>

definition flags_AB :: "32 word EnumFlags" where "flags_AB = EnumFlags_range [Opt_A, Opt_B]"
definition flags_CD :: "32 word EnumFlags" where "flags_CD = EnumFlags_range [Opt_C, Opt_D]"
definition flags_ABC :: "32 word EnumFlags" where
  "flags_ABC = EnumFlags_range [Opt_A, Opt_B, Opt_C]"

section \<open>Properties\<close>

subsection \<open>Bits of words and of flags\<close>

lemma word_eq_0_bits: "w = 0 \<longleftrightarrow> (\<forall>n. \<not> bit w n)" for w :: "'a::len word"
proof
  assume "\<forall>n. \<not> bit w n"
  then show "w = 0" by (intro bit_eqI) simp
qed simp

lemma and_neq_0_iff: "a AND b \<noteq> 0 \<longleftrightarrow> (\<exists>n. bit a n \<and> bit b n)" for a b :: "'a::len word"
  by (simp add: word_eq_0_bits [of "a AND b"] bit_and_iff)

lemma and_eq_right_iff: "a AND b = b \<longleftrightarrow> (\<forall>n. bit b n \<longrightarrow> bit a n)" for a b :: "'a::len word"
proof
  assume "a AND b = b"
  then have "\<And>n. bit (a AND b) n = bit b n" by simp
  then show "\<forall>n. bit b n \<longrightarrow> bit a n" by (auto simp: bit_and_iff)
next
  assume "\<forall>n. bit b n \<longrightarrow> bit a n"
  then show "a AND b = b" by (intro bit_eqI) (auto simp: bit_and_iff)
qed

lemma bit_flag_iff:
  "k < LENGTH('a) \<Longrightarrow> bit (push_bit k 1 :: 'a::len word) n \<longleftrightarrow> n = k"
  by (simp add: bit_exp_iff) (auto simp: bit_simps)

lemma is_flag_push_bit: "k < LENGTH('a) \<Longrightarrow> is_flag (Enum (push_bit k 1 :: 'a::len word))"
  by (auto simp: is_flag_def list_ex_iff)

lemma is_flag_bits:
  fixes v :: "'a::len word Enum"
  assumes "is_flag v"
  obtains k where "k < LENGTH('a)" and "to_underlying v = push_bit k 1"
    and "\<And>n. bit (to_underlying v) n \<longleftrightarrow> n = k"
proof -
  from assms obtain k where k: "k < LENGTH('a)" "to_underlying v = push_bit k 1"
    unfolding is_flag_def list_ex_iff by (elim bexE) simp
  from k have "\<And>n. bit (to_underlying v) n \<longleftrightarrow> n = k"
    by (simp only: bit_flag_iff)
  with k show thesis by (rule that)
qed

lemma is_flag_Opt: "is_flag Opt_A" "is_flag Opt_B" "is_flag Opt_C" "is_flag Opt_D" "is_flag Opt_E"
  unfolding Opt_A_def Opt_B_def Opt_C_def Opt_D_def Opt_E_def
  by (rule is_flag_push_bit, simp)+

lemma Opt_CreateFlag:
  "CreateFlag int_bits 0 = Some (to_underlying Opt_A)"
  "CreateFlag int_bits 1 = Some (to_underlying Opt_B)"
  "CreateFlag int_bits 2 = Some (to_underlying Opt_C)"
  "CreateFlag int_bits 3 = Some (to_underlying Opt_D)"
  "CreateFlag int_bits 4 = Some (to_underlying Opt_E)"
  by (simp_all add: CreateFlag_def Opt_A_def Opt_B_def Opt_C_def Opt_D_def Opt_E_def)

lemma Has_iff: "Has F v \<longleftrightarrow> (\<exists>n. bit (raw_flags F) n \<and> bit (to_underlying v) n)"
  by (simp add: Has_def and_neq_0_iff)

lemma unat_flag: "k < LENGTH('a) \<Longrightarrow> unat (push_bit k 1 :: 'a::len word) = 2 ^ k"
proof -
  assume k: "k < LENGTH('a)"
  have "unat (push_bit k 1 :: 'a word) = take_bit LENGTH('a) (push_bit k (1::nat))"
    by (simp only: unsigned_push_bit_eq unsigned_1)
  also have "\<dots> = 2 ^ k" using k by (simp add: take_bit_nat_eq_self)
  finally show ?thesis .
qed

lemma AddFlags_simps:
  "AddFlags F [] = F"
  "AddFlags F (x # S) = AddFlags (Add F (EnumFlags_enum x)) S"
  by (simp_all add: AddFlags_def)

lemma bit_AddFlags:
  "bit (raw_flags (AddFlags F S)) n \<longleftrightarrow>
     bit (raw_flags F) n \<or> (\<exists>x \<in> set S. bit (to_underlying x) n)"
proof (induction S arbitrary: F)
  case Nil
  show ?case by (simp add: AddFlags_simps)
next
  case (Cons x S)
  have "bit (raw_flags (Add F (EnumFlags_enum x))) n \<longleftrightarrow>
      bit (raw_flags F) n \<or> bit (to_underlying x) n"
    by (simp add: Add_def EnumFlags_enum_def to_RawType_def bit_or_iff)
  then show ?case by (simp add: AddFlags_simps Cons.IH)
qed

lemma bit_EnumFlags_range:
  "bit (raw_flags (EnumFlags_range S)) n \<longleftrightarrow> (\<exists>x \<in> set S. bit (to_underlying x) n)"
  by (simp add: EnumFlags_range_def bit_AddFlags)

lemma EnumFlags_range_cong:
  assumes "set T = set S"
  shows "EnumFlags_range T = EnumFlags_range S"
proof -
  have "raw_flags (EnumFlags_range T) = raw_flags (EnumFlags_range S)"
    by (intro bit_eqI) (simp add: bit_EnumFlags_range assms)
  then show ?thesis by (simp add: EnumFlags.expand)
qed

lemma flag_eq_iff:
  fixes x v :: "'a::len word Enum"
  assumes "is_flag x" "is_flag v"
  shows "(\<exists>n. bit (to_underlying x) n \<and> bit (to_underlying v) n) \<longleftrightarrow> x = v"
proof -
  from assms(1) obtain j where j: "to_underlying x = push_bit j 1"
    "\<And>n. bit (to_underlying x) n \<longleftrightarrow> n = j" by (rule is_flag_bits) blast
  from assms(2) obtain k where k: "to_underlying v = push_bit k 1"
    "\<And>n. bit (to_underlying v) n \<longleftrightarrow> n = k" by (rule is_flag_bits) blast
  have "(\<exists>n. bit (to_underlying x) n \<and> bit (to_underlying v) n) \<longleftrightarrow> j = k"
    by (simp add: j(2) k(2))
  also have "\<dots> \<longleftrightarrow> x = v"
  proof
    assume "j = k"
    with j(1) k(1) have "to_underlying x = to_underlying v" by simp
    then show "x = v" by (simp add: Enum.expand)
  next
    assume "x = v"
    with j(2) k(2) show "j = k" by metis
  qed
  finally show ?thesis .
qed

subsection \<open>Queries\<close>

text \<open>
  C1 says that \<open>Has(v)\<close> is true iff every bit set in \<open>v\<close> is set in the receiver. On the
  code this fails for a value with several bits: \<open>Has\<close> is true on the receiver with raw
  value 1 and the value 3, although bit 1 is set in the value and not in the receiver.
\<close>

theorem Has_all_bits_counterexample:
  "Has (EnumFlags (1::32 word)) (Enum 3)
   \<and> raw_flags (EnumFlags (1::32 word)) AND to_underlying (Enum 3) \<noteq> to_underlying (Enum 3)
   \<and> bit (to_underlying (Enum (3::32 word))) 1
   \<and> \<not> bit (raw_flags (EnumFlags (1::32 word))) 1"
  by (simp add: Has_def)

text \<open>
  C1, amended. \<open>Has(v)\<close> is true iff at least one bit set in the underlying value of
  \<open>v\<close> is set in the receiver's raw value; when \<open>v\<close> is a single-bit value this is the
  same as every bit of \<open>v\<close> being set in the receiver.
\<close>

theorem Has_iff_some_bit:
  "(Has F v \<longleftrightarrow> (\<exists>n. bit (to_underlying v) n \<and> bit (raw_flags F) n))
   \<and> (is_flag v \<longrightarrow>
        (Has F v \<longleftrightarrow> (\<forall>n. bit (to_underlying v) n \<longrightarrow> bit (raw_flags F) n)))"
proof (intro conjI impI)
  show "Has F v \<longleftrightarrow> (\<exists>n. bit (to_underlying v) n \<and> bit (raw_flags F) n)"
    by (auto simp: Has_iff)
next
  assume "is_flag v"
  then obtain k where k: "\<And>n. bit (to_underlying v) n \<longleftrightarrow> n = k"
    by (rule is_flag_bits) blast
  show "Has F v \<longleftrightarrow> (\<forall>n. bit (to_underlying v) n \<longrightarrow> bit (raw_flags F) n)"
    by (simp add: Has_iff k)
qed

theorem Has_iff_some_bit_witness:
  "is_flag Opt_B \<and> Has (EnumFlags 3) Opt_B \<and> bit (to_underlying Opt_B) 1
   \<and> bit (raw_flags (EnumFlags (3::32 word))) 1"
  using Has_iff_some_bit [of "EnumFlags 3" Opt_B] is_flag_Opt(2)
  by (simp add: Opt_B_def Has_def)

text \<open>
  C4. \<open>HasAll(G)\<close> is true iff every bit set in \<open>G\<close> is set in the receiver, which is
  \<open>(R & G) == G\<close>; for the empty argument (raw value 0, also the default-constructed
  flag set) it is true for every receiver.
\<close>

theorem HasAll_iff_all_bits:
  "(HasAll R G \<longleftrightarrow> (\<forall>n. bit (to_RawType G) n \<longrightarrow> bit (to_RawType R) n))
   \<and> (HasAll R G \<longleftrightarrow> to_RawType R AND to_RawType G = to_RawType G)
   \<and> HasAll R (EnumFlags_raw 0) \<and> HasAll R EnumFlags_default"
  by (simp add: HasAll_def to_RawType_def EnumFlags_raw_def EnumFlags_default_def
      and_eq_right_iff)

theorem HasAll_iff_all_bits_witness:
  "HasAll flags_ABC flags_AB
   \<and> bit (to_RawType flags_AB) 1 \<and> bit (to_RawType flags_ABC) 1
   \<and> \<not> HasAll flags_ABC flags_CD"
  using HasAll_iff_all_bits [of flags_ABC flags_AB]
  by (simp add: flags_AB_def flags_CD_def flags_ABC_def HasAll_def to_RawType_def EnumFlags_range_def AddFlags_def Add_def
      EnumFlags_enum_def Opt_A_def Opt_B_def Opt_C_def Opt_D_def)

text \<open>
  C5. \<open>HasAny(G)\<close> is true iff at least one bit set in \<open>G\<close> is set in the receiver,
  which is \<open>(R & G) != 0\<close>; for the empty argument it is false for every receiver.
\<close>

theorem HasAny_iff_some_bit:
  "(HasAny R G \<longleftrightarrow> (\<exists>n. bit (to_RawType G) n \<and> bit (to_RawType R) n))
   \<and> (HasAny R G \<longleftrightarrow> to_RawType R AND to_RawType G \<noteq> 0)
   \<and> \<not> HasAny R (EnumFlags_raw 0) \<and> \<not> HasAny R EnumFlags_default"
  by (auto simp: HasAny_def to_RawType_def EnumFlags_raw_def EnumFlags_default_def
      and_neq_0_iff)

subsection \<open>Adding, removing and overwriting\<close>

text \<open>
  C2. \<open>operator&=\<close> replaces the raw value of the receiver by the raw value of its
  argument, whatever the receiver held: the receiver becomes equal to the argument. On
  the test's values, \<open>{A, B} &= {C, D}\<close> is \<open>{C, D}\<close>, which is neither the union nor the
  intersection of the two.
\<close>

theorem and_assign_overwrites:
  "to_RawType (and_assign F G) = to_RawType G
   \<and> and_assign F G = G
   \<and> and_assign flags_AB flags_CD = flags_CD
   \<and> and_assign flags_AB flags_CD \<noteq> Add flags_AB flags_CD
   \<and> and_assign flags_AB flags_CD
       \<noteq> EnumFlags (to_RawType flags_AB AND to_RawType flags_CD)"
  by (simp add: flags_AB_def flags_CD_def and_assign_def to_RawType_def EnumFlags_range_def AddFlags_def Add_def
      EnumFlags_enum_def Opt_A_def Opt_B_def Opt_C_def Opt_D_def)

text \<open>
  C6. For a flag \<open>v\<close>: after \<open>F.Add(v)\<close>, \<open>Has(v)\<close> is true; after \<open>F.Add(v).Remove(v)\<close>,
  \<open>Has(v)\<close> is false; and when \<open>F.Has(v)\<close> is false, \<open>F.Remove(v)\<close> leaves \<open>F\<close> equal to
  its prior value. The argument of \<open>Add\<close> and \<open>Remove\<close> is the flag set the value converts
  to.
\<close>

theorem Add_Remove_Has:
  assumes "is_flag v"
  shows "Has (Add F (EnumFlags_enum v)) v
     \<and> \<not> Has (Remove (Add F (EnumFlags_enum v)) (EnumFlags_enum v)) v
     \<and> (\<not> Has F v \<longrightarrow> Remove F (EnumFlags_enum v) = F)"
proof (intro conjI impI)
  from assms obtain k where k: "k < LENGTH('a)" "\<And>n. bit (to_underlying v) n \<longleftrightarrow> n = k"
    by (rule is_flag_bits) blast
  then show "Has (Add F (EnumFlags_enum v)) v"
    by (auto simp: Has_iff Add_def EnumFlags_enum_def to_RawType_def bit_or_iff)
  show "\<not> Has (Remove (Add F (EnumFlags_enum v)) (EnumFlags_enum v)) v"
    by (simp add: Has_iff Remove_def EnumFlags_enum_def to_RawType_def bit_and_iff bit_not_iff)
  assume "\<not> Has F v"
  then have "\<And>n. bit (raw_flags F) n \<Longrightarrow> \<not> bit (to_underlying v) n"
    by (auto simp: Has_iff)
  then have "raw_flags F AND NOT (to_underlying v) = raw_flags F"
    by (intro bit_eqI) (auto simp: bit_and_iff bit_not_iff)
  then show "Remove F (EnumFlags_enum v) = F"
    by (simp add: Remove_def EnumFlags_enum_def to_RawType_def)
qed

theorem Add_Remove_Has_witness:
  "is_flag Opt_B \<and> Has (Add (EnumFlags_enum Opt_A) (EnumFlags_enum Opt_B)) Opt_B
   \<and> \<not> Has (Remove (Add (EnumFlags_enum Opt_A) (EnumFlags_enum Opt_B)) (EnumFlags_enum Opt_B)) Opt_B
   \<and> \<not> Has (EnumFlags_enum Opt_A) Opt_B
   \<and> Remove (EnumFlags_enum Opt_A) (EnumFlags_enum Opt_B) = EnumFlags_enum Opt_A"
  using Add_Remove_Has [of Opt_B "EnumFlags_enum Opt_A"] is_flag_Opt(2)
  by (simp add: Has_def EnumFlags_enum_def Opt_A_def Opt_B_def)

text \<open>
  C10. Right after \<open>F.Remove(G)\<close> the receiver has none of the bits of \<open>G\<close>:
  \<open>HasAny(G)\<close> is false, for every argument; and each bit that is not set in \<open>G\<close> is
  as it was before the call.
\<close>

theorem Remove_disjoins:
  "\<not> HasAny (Remove F G) G
   \<and> (\<forall>n. \<not> bit (to_RawType G) n \<longrightarrow>
          bit (to_RawType (Remove F G)) n = bit (to_RawType F) n)
   \<and> (\<forall>n. bit (to_RawType G) n \<longrightarrow> \<not> bit (to_RawType (Remove F G)) n)"
  by (auto simp: HasAny_def Remove_def to_RawType_def and_neq_0_iff bit_and_iff bit_not_iff
      dest: bit_imp_le_length)

theorem Remove_disjoins_witness:
  "\<not> HasAny (Remove (EnumFlags 7) (EnumFlags 5)) (EnumFlags (5::32 word))
   \<and> \<not> bit (to_RawType (EnumFlags (5::32 word))) 1
   \<and> bit (to_RawType (Remove (EnumFlags 7) (EnumFlags (5::32 word)))) 1
   \<and> bit (to_RawType (EnumFlags (7::32 word))) 1
   \<and> bit (to_RawType (EnumFlags (5::32 word))) 2
   \<and> \<not> bit (to_RawType (Remove (EnumFlags 7) (EnumFlags (5::32 word)))) 2"
  using Remove_disjoins [of "EnumFlags 7" "EnumFlags (5::32 word)"]
  by (simp add: to_RawType_def Remove_def)

text \<open>
  C7. \<open>F | G\<close> returns a flag set whose raw value is the bitwise OR of the raw values of
  \<open>F\<close> and \<open>G\<close>, and the receiver is after the call what it was before: for a flag \<open>v\<close>,
  \<open>(F | v).Has(v)\<close> is true and \<open>F.Has(v)\<close> keeps its value.
\<close>

theorem or_op_pure:
  "to_RawType (snd (or_op F G)) = to_RawType F OR to_RawType G
   \<and> fst (or_op F G) = F
   \<and> (is_flag v \<longrightarrow> Has (snd (or_op F (EnumFlags_enum v))) v)
   \<and> Has (fst (or_op F (EnumFlags_enum v))) v = Has F v"
proof (intro conjI impI)
  assume "is_flag v"
  then obtain k where k: "k < LENGTH('a)" "\<And>n. bit (to_underlying v) n \<longleftrightarrow> n = k"
    by (rule is_flag_bits) blast
  then show "Has (snd (or_op F (EnumFlags_enum v))) v"
    by (auto simp: or_op_def Has_iff Add_def EnumFlags_enum_def to_RawType_def bit_or_iff)
qed (simp_all add: or_op_def Add_def to_RawType_def)

theorem or_op_pure_witness:
  "is_flag Opt_D
   \<and> Has (snd (or_op flags_ABC (EnumFlags_enum Opt_D))) Opt_D
   \<and> \<not> Has (fst (or_op flags_ABC (EnumFlags_enum Opt_D))) Opt_D
   \<and> to_RawType (snd (or_op flags_ABC (EnumFlags_enum Opt_D))) = 15"
  using or_op_pure [of flags_ABC "EnumFlags_enum Opt_D" Opt_D]
    is_flag_Opt(4)
  by (simp add: flags_ABC_def or_op_def Has_def Add_def to_RawType_def EnumFlags_range_def AddFlags_def
      EnumFlags_enum_def Opt_A_def Opt_B_def Opt_C_def Opt_D_def)

subsection \<open>Construction and conversion\<close>

text \<open>
  C9. The raw value survives the round trip through the public interface: a flag set
  constructed from the raw value \<open>r\<close> converts back to \<open>r\<close>, and a default-constructed flag
  set converts to 0.
\<close>

theorem raw_round_trip:
  "to_RawType (EnumFlags_raw r) = r \<and> to_RawType (EnumFlags_default :: 'a::len word EnumFlags) = 0"
  by (simp add: to_RawType_def EnumFlags_raw_def EnumFlags_default_def)

text \<open>
  C8. For a shift below the width of the underlying type, \<open>CreateFlag\<close> returns the
  value \<open>1 << shift\<close> of that type: the word whose unsigned value is \<open>2 ^ shift\<close> and whose
  only set bit is bit \<open>shift\<close>. The result depends on the shift alone, not on the width of
  \<open>int\<close>.
\<close>

theorem CreateFlag_value:
  assumes "shift < LENGTH('a::len)"
  shows "\<exists>r::'a word. CreateFlag int_bits shift = Some r \<and> r = push_bit shift 1
     \<and> unat r = 2 ^ shift \<and> (\<forall>n. bit r n \<longleftrightarrow> n = shift) \<and> is_flag (Enum r)
     \<and> CreateFlag int_bits' shift = Some r"
proof -
  let ?r = "push_bit shift 1 :: 'a word"
  from assms have "CreateFlag int_bits shift = Some ?r" "CreateFlag int_bits' shift = Some ?r"
    by (simp_all add: CreateFlag_def)
  moreover from assms have "unat ?r = 2 ^ shift" by (rule unat_flag)
  moreover from assms have "\<forall>n. bit ?r n \<longleftrightarrow> n = shift" by (simp only: bit_flag_iff simp_thms)
  moreover from assms have "is_flag (Enum ?r)" by (rule is_flag_push_bit)
  ultimately show ?thesis by blast
qed

theorem CreateFlag_value_witness:
  "CreateFlag 32 4 = Some (to_underlying Opt_E) \<and> unat (to_underlying Opt_E) = 16
   \<and> CreateFlag 64 4 = Some (to_underlying Opt_E)"
  using CreateFlag_value [of 4, where 'a = 32 and int_bits = 32 and int_bits' = 64]
  by (simp add: Opt_E_def)

text \<open>
  C3. A flag set constructed from a collection \<open>S\<close> of flags has the bitwise union of the
  underlying values of the elements as its raw value. For a flag \<open>v\<close>, \<open>Has(v)\<close> is true
  iff \<open>v\<close> is an element of \<open>S\<close>. Every collection with the same elements, in whatever
  order and however often each is repeated, gives the same flag set. The first and the
  last part hold for every collection of values, single-bit or not.
\<close>

theorem EnumFlags_range_union:
  assumes "\<forall>x \<in> set S. is_flag x" and "is_flag v"
  shows "(\<forall>n. bit (to_RawType (EnumFlags_range S)) n \<longleftrightarrow> (\<exists>x \<in> set S. bit (to_underlying x) n))
     \<and> (Has (EnumFlags_range S) v \<longleftrightarrow> v \<in> set S)
     \<and> (\<forall>T. set T = set S \<longrightarrow> EnumFlags_range T = EnumFlags_range S)"
proof (intro conjI allI impI)
  fix n
  show "bit (to_RawType (EnumFlags_range S)) n \<longleftrightarrow> (\<exists>x \<in> set S. bit (to_underlying x) n)"
    by (simp add: to_RawType_def bit_EnumFlags_range)
next
  have "Has (EnumFlags_range S) v \<longleftrightarrow>
      (\<exists>x \<in> set S. \<exists>n. bit (to_underlying x) n \<and> bit (to_underlying v) n)"
    by (auto simp: Has_iff bit_EnumFlags_range)
  also have "\<dots> \<longleftrightarrow> (\<exists>x \<in> set S. x = v)"
    using assms by (simp add: flag_eq_iff)
  finally show "Has (EnumFlags_range S) v \<longleftrightarrow> v \<in> set S" by auto
next
  fix T assume "set T = set S"
  then show "EnumFlags_range T = EnumFlags_range S" by (rule EnumFlags_range_cong)
qed

theorem EnumFlags_range_union_witness:
  "is_flag Opt_A \<and> is_flag Opt_B \<and> is_flag Opt_C
   \<and> Has (EnumFlags_range [Opt_B, Opt_A, Opt_B]) Opt_B
   \<and> \<not> Has (EnumFlags_range [Opt_B, Opt_A, Opt_B]) Opt_C
   \<and> EnumFlags_range [Opt_B, Opt_A, Opt_B] = flags_AB
   \<and> to_RawType (EnumFlags_range [Opt_B, Opt_A, Opt_B]) = 3"
  using EnumFlags_range_union [of "[Opt_B, Opt_A, Opt_B]" Opt_B]
    EnumFlags_range_union [of "[Opt_B, Opt_A, Opt_B]" Opt_C]
    is_flag_Opt(1-3)
  by (simp add: flags_AB_def Has_def to_RawType_def EnumFlags_range_def AddFlags_def Add_def
      EnumFlags_enum_def Opt_A_def Opt_B_def Opt_C_def)

end
